theory Spec2Isabelle
  imports Complex_Main "HOL-Library.Log_Nat"
begin

section \<open>JavaScript values used by OrdersHelper\<close>

text \<open>
  A JavaScript string is modelled as a \<^typ>\<open>string\<close>, one \<^typ>\<open>char\<close> per code unit, so that
  \<open>length\<close> is the source's \<open>.length\<close>. Reading a property of \<open>undefined\<close> or \<open>null\<close>
  throws a TypeError in the source; in the model every such read is a branch returning
  \<open>Inl TypeError\<close>.
\<close>

datatype js_error = TypeError

text \<open>\<open>array[i]\<close>: the element, or \<open>undefined\<close> (here \<open>None\<close>) out of range.\<close>

fun js_index :: "'a list \<Rightarrow> nat \<Rightarrow> 'a option" where
  "js_index [] i = None"
| "js_index (x # xs) 0 = Some x"
| "js_index (x # xs) (Suc i) = js_index xs i"

text \<open>
  \<open>s.split(c)\<close> for a one-character separator: the segments between the occurrences of
  \<open>c\<close>; a string without \<open>c\<close> (the empty string too) gives one segment.
\<close>

fun js_split :: "char \<Rightarrow> string \<Rightarrow> string list" where
  "js_split c [] = [[]]"
| "js_split c (x # xs) =
     (if x = c then [] # js_split c xs
      else (case js_split c xs of [] \<Rightarrow> [[x]] | seg # segs \<Rightarrow> (x # seg) # segs))"

text \<open>\<open>array.join(sep)\<close>.\<close>

fun js_join :: "string \<Rightarrow> string list \<Rightarrow> string" where
  "js_join sep [] = []"
| "js_join sep [x] = x"
| "js_join sep (x # y # ys) = x @ sep @ js_join sep (y # ys)"

text \<open>
  \<open>s.slice(0, e)\<close>: a negative end counts from the end of the string (clamped at 0), a
  positive one is clamped at the length.
\<close>

definition js_slice0 :: "string \<Rightarrow> int \<Rightarrow> string" where
  "js_slice0 s e =
     (let len = int (length s);
          to = (if e < 0 then max (len + e) 0 else min e len)
      in take (nat to) s)"

section \<open>JavaScript numbers\<close>

text \<open>
  A JavaScript number is an IEEE 754 double: a finite value (given by the rational it
  denotes), an infinity or NaN. The two zeros are the one value \<open>Finite 0\<close>: the operations
  modelled here never divide by a computed value, which is the only way to tell them apart.
\<close>

datatype js_number = Finite rat | PosInfinity | NegInfinity | NaN

definition pow2 :: "int \<Rightarrow> rat" where
  "pow2 k = (if k \<ge> 0 then 2 ^ nat k else 1 / 2 ^ nat (- k))"

text \<open>
  For a positive \<open>x\<close>, the exponent \<open>e\<close> with \<open>pow2 e \<le> x < pow2 (e + 1)\<close>: the bit lengths
  of numerator and denominator give it up to one, and a comparison decides.
\<close>

definition floor_log2 :: "rat \<Rightarrow> int" where
  "floor_log2 x =
     (let (p, q) = quotient_of x; k = bitlen p - bitlen q
      in if pow2 k \<le> x then k else k - 1)"

text \<open>The nearest integer, a tie going to the even one.\<close>

definition round_ties_even :: "rat \<Rightarrow> int" where
  "round_ties_even r =
     (let f = \<lfloor>r\<rfloor>; d = r - of_int f
      in if d < 1 / 2 then f else if d > 1 / 2 then f + 1 else if even f then f else f + 1)"

text \<open>
  The double nearest to an exact result (round to nearest, ties to even): 53 significant
  bits, the spacing \<open>pow2 (- 1074)\<close> below \<open>pow2 (- 1022)\<close> (gradual underflow), and an
  infinity when the rounded magnitude reaches \<open>pow2 1024\<close>.
\<close>

definition round_double :: "rat \<Rightarrow> js_number" where
  "round_double x =
     (if x = 0 then Finite 0
      else
        (let e = max (floor_log2 \<bar>x\<bar>) (- 1022);
             q = pow2 (e - 52);
             y = of_int (round_ties_even (\<bar>x\<bar> / q)) * q
         in if y \<ge> pow2 1024 then (if x > 0 then PosInfinity else NegInfinity)
            else Finite (if x > 0 then y else - y)))"

definition js_sign :: "js_number \<Rightarrow> rat" where
  "js_sign a = (case a of Finite x \<Rightarrow> sgn x | PosInfinity \<Rightarrow> 1 | NegInfinity \<Rightarrow> - 1 | NaN \<Rightarrow> 0)"

definition js_infinity :: "rat \<Rightarrow> js_number" where
  "js_infinity s = (if s > 0 then PosInfinity else NegInfinity)"

text \<open>\<open>a * b\<close>: an infinity times zero is NaN.\<close>

definition js_mul :: "js_number \<Rightarrow> js_number \<Rightarrow> js_number" where
  "js_mul a b =
     (case (a, b) of
        (Finite x, Finite y) \<Rightarrow> round_double (x * y)
      | _ \<Rightarrow> if a = NaN \<or> b = NaN \<or> js_sign a * js_sign b = 0 then NaN
             else js_infinity (js_sign a * js_sign b))"

text \<open>\<open>a + b\<close> on two numbers: the infinities of opposite sign add up to NaN.\<close>

definition js_add :: "js_number \<Rightarrow> js_number \<Rightarrow> js_number" where
  "js_add a b =
     (case (a, b) of
        (Finite x, Finite y) \<Rightarrow> round_double (x + y)
      | _ \<Rightarrow> if a = NaN \<or> b = NaN then NaN
             else if (a = PosInfinity \<and> b = NegInfinity) \<or> (a = NegInfinity \<and> b = PosInfinity) then NaN
             else if a = PosInfinity \<or> b = PosInfinity then PosInfinity
             else NegInfinity)"

text \<open>
  \<open>a / array.length\<close>: the divisor is a count, exactly representable, and its zero is the
  positive zero.
\<close>

definition js_div_length :: "js_number \<Rightarrow> nat \<Rightarrow> js_number" where
  "js_div_length a n =
     (case a of
        Finite x \<Rightarrow> (if n = 0 then (if x = 0 then NaN else js_infinity x)
                     else round_double (x / of_nat n))
      | PosInfinity \<Rightarrow> PosInfinity
      | NegInfinity \<Rightarrow> NegInfinity
      | NaN \<Rightarrow> NaN)"

section \<open>The filename sanitizer\<close>

definition MAX_ORIGINAL_NAME_LENGTH :: int where
  "MAX_ORIGINAL_NAME_LENGTH = 50"

text \<open>
  \<open>originalNameFormatter\<close>. In the source \<open>fileExtension\<close> is \<open>undefined\<close> when the split has
  one segment, and \<open>fileExtension.length\<close> then throws.
\<close>

definition originalNameFormatter :: "string \<Rightarrow> js_error + string" where
  "originalNameFormatter originalName =
     (if int (length originalName) > MAX_ORIGINAL_NAME_LENGTH then
        (let SPLIT_FILE_NAME = js_split CHR ''.'' originalName;
             (fileName, fileExtension) =
               (if length SPLIT_FILE_NAME > 2
                then (Some (js_join ''.'' (butlast SPLIT_FILE_NAME)),
                      js_index SPLIT_FILE_NAME (length SPLIT_FILE_NAME - 1))
                else (js_index SPLIT_FILE_NAME 0, js_index SPLIT_FILE_NAME 1))
         in (case fileExtension of
               None \<Rightarrow> Inl TypeError
             | Some ext \<Rightarrow>
                 (case fileName of
                    None \<Rightarrow> Inl TypeError
                  | Some stem \<Rightarrow>
                      (let remainingNameLength = MAX_ORIGINAL_NAME_LENGTH - int (length ext)
                       in Inr (js_slice0 stem (remainingNameLength - 1) @ ''.'' @ ext)))))
      else Inr originalName)"


section \<open>The relational store\<close>

text \<open>
  Every table the modelled workflows touch is a list of rows, kept in insertion order; a
  \<open>create\<close> appends a row. Rows carry the columns the workflows read or write. The
  auto-generated primary key of a table is a column only where the code reads it; the
  timestamps \<open>createdAt\<close>/\<open>updatedAt\<close> are not columns of the model, and
  \<open>order: [['createdAt', 'DESC']]\<close> with one result is the last matching row in insertion
  order. \<open>findOne\<close> without an order is the first matching row (\<^const>\<open>find\<close>). Ratings
  and averages are JavaScript numbers (\<^typ>\<open>js_number\<close>), read back from the store as
  they were written. Prices and discounts are only copied, never computed with; they are
  rationals.
\<close>

record User =
  u_id :: int
  u_email :: string

record Client =
  c_id :: int
  c_userId :: int

record Currency =
  cur_id :: int
  cur_currencyCode :: string

record OrderStatus =
  os_id :: int
  os_status :: string

record PaymentStatus =
  pst_id :: int
  pst_status :: string

record Order =
  o_id :: int
  o_clientId :: int
  o_statusId :: int
  o_pageCount :: int

record ClientPayment =
  cp_orderId :: int
  cp_statusId :: int

record OrderPaymentDetail =
  opd_orderId :: "int option"
  opd_currencyId :: int
  opd_extras :: string
  opd_extrasTotalPrice :: rat
  opd_totalPrice :: rat
  opd_cpp :: rat

record ClientOrderPostingStep =
  step_clientId :: int
  step_orderId :: "int option"
  step_lastStep :: int

record Writer =
  w_id :: int
  w_userId :: int

record WriterOrder =
  wo_orderId :: int
  wo_writerId :: int

record OrderBid =
  b_orderId :: int
  b_writerId :: int
  b_successful :: bool

record WriterRating =
  wr_orderId :: int
  wr_writerId :: int
  wr_rating :: js_number

record WriterAverageRating =
  war_writerId :: int
  war_rating :: js_number

record PaperDiscount =
  pd_lowerLimit :: int
  pd_discount :: rat

record OrderFileType =
  oft_id :: int
  oft_type :: string

record OrderFile =
  of_orderId :: int
  of_fileUrl :: string
  of_originalName :: string
  of_type :: int
  of_isDeleted :: bool
  of_submittedPaper :: bool

text \<open>
  The deadline of a revision is \<open>new Date(date)\<close> after \<open>setHours(time.split(':')[0])\<close> and
  \<open>setMinutes(time.split(':')[1])\<close>; the model keeps the three arguments and does no
  calendar arithmetic.
\<close>

record Deadline =
  dl_date :: string
  dl_hours :: "string option"
  dl_minutes :: "string option"

record OrderRevision =
  rev_orderId :: int
  rev_revisionInstructions :: "(string \<times> string) list"
  rev_deadline :: Deadline
  rev_creator :: int
  rev_submitted :: bool
  rev_isDeleted :: bool

record db =
  users :: "User list"
  clients :: "Client list"
  currencies :: "Currency list"
  orderStatuses :: "OrderStatus list"
  paymentStatuses :: "PaymentStatus list"
  orders :: "Order list"
  clientPayments :: "ClientPayment list"
  orderPaymentDetails :: "OrderPaymentDetail list"
  clientOrderPostingSteps :: "ClientOrderPostingStep list"
  writers :: "Writer list"
  writerOrders :: "WriterOrder list"
  orderBids :: "OrderBid list"
  writerRatings :: "WriterRating list"
  writerAverageRatings :: "WriterAverageRating list"
  paperDiscounts :: "PaperDiscount list"
  orderFileTypes :: "OrderFileType list"
  orderFiles :: "OrderFile list"
  orderRevisions :: "OrderRevision list"

text \<open>The last matching row: \<open>findOne\<close> ordered by \<open>createdAt\<close> descending.\<close>

definition find_latest :: "('a \<Rightarrow> bool) \<Rightarrow> 'a list \<Rightarrow> 'a option" where
  "find_latest P xs = find P (rev xs)"

text \<open>
  \<open>s.toLowerCase()\<close> on the ASCII letters; every other code unit is left as it is, where
  JavaScript lowers the capitals outside ASCII too.
\<close>

definition char_toLowerCase :: "char \<Rightarrow> char" where
  "char_toLowerCase c =
     (let n = (of_char c :: nat) in if 65 \<le> n \<and> n \<le> 90 then char_of (n + 32) else c)"

definition toLowerCase :: "string \<Rightarrow> string" where
  "toLowerCase s = map char_toLowerCase s"

text \<open>Truthiness of a number that may be \<open>undefined\<close> or \<open>null\<close> (\<open>None\<close>), and \<open>a || b\<close>.\<close>

definition js_truthy :: "int option \<Rightarrow> bool" where
  "js_truthy v = (case v of None \<Rightarrow> False | Some n \<Rightarrow> n \<noteq> 0)"

definition js_or :: "int option \<Rightarrow> int option \<Rightarrow> int option" where
  "js_or a b = (if js_truthy a then a else b)"

text \<open>\<open>v > 0\<close>: false for \<open>undefined\<close>.\<close>

definition js_gt0 :: "int option \<Rightarrow> bool" where
  "js_gt0 v = (case v of None \<Rightarrow> False | Some n \<Rightarrow> n > 0)"

text \<open>\<open>String(n)\<close> of an integer, and \<open>String(array)\<close>, which joins with commas.\<close>

fun String_nat :: "nat \<Rightarrow> string" where
  "String_nat n =
     (if n < 10 then [char_of (48 + n)]
      else String_nat (n div 10) @ [char_of (48 + n mod 10)])"

definition String_int :: "int \<Rightarrow> string" where
  "String_int i = (if i < 0 then CHR ''-'' # String_nat (nat (- i)) else String_nat (nat i))"

definition String_ids :: "int list \<Rightarrow> string" where
  "String_ids ids = js_join '','' (map String_int ids)"

section \<open>Identity resolver\<close>

text \<open>
  \<open>getClientId\<close>: \<open>USER.id\<close> throws when no user has the email, \<open>user.id\<close> when the user
  has no client row.
\<close>

definition getClientId :: "string \<Rightarrow> db \<Rightarrow> js_error + int" where
  "getClientId email d =
     (case find (\<lambda>u. u_email u = toLowerCase email) (users d) of
        None \<Rightarrow> Inl TypeError
      | Some USER \<Rightarrow>
          (case find (\<lambda>c. c_userId c = u_id USER) (clients d) of
             None \<Rightarrow> Inl TypeError
           | Some user \<Rightarrow> Inr (c_id user)))"


section \<open>Payment recording\<close>

text \<open>
  The request of \<open>updateOrderPayment\<close>: \<open>req.orderId\<close> may be absent (\<open>None\<close>);
  \<open>extrasList\<close> is given by the \<open>id\<close> of each entry, the only property read.
\<close>

record PaymentSummary =
  sum_currencyCode :: string
  sum_extrasList :: "int list"
  sum_extrasTotalPrice :: rat
  sum_totalPrice :: rat
  sum_cpp :: rat

record PaymentReq =
  pr_email :: string
  pr_orderId :: "int option"
  pr_paymentSummary :: PaymentSummary

datatype PaymentResult =
    NoOrderID                    \<comment> \<open>\<open>{response: 'no order ID'}\<close>\<close>
  | SuccessNewOrderFalse         \<comment> \<open>\<open>{response: 'success', newOrder: false}\<close>\<close>
  | SuccessOrderId "int option"  \<comment> \<open>\<open>{response: 'success', orderId}\<close>\<close>

text \<open>
  \<open>updateOrderPayment (req, phase, requestOrderId)\<close>. A workflow returns \<open>Inl\<close> when the
  source throws (the transaction is rejected), and otherwise its result with the store it
  leaves. The created payment detail is given \<open>orderId: requestOrderId\<close>, as in the source;
  the update and the posting step use \<open>orderId\<close>.
\<close>

definition updateOrderPayment ::
  "PaymentReq \<Rightarrow> string \<Rightarrow> int option \<Rightarrow> db \<Rightarrow> js_error + (PaymentResult \<times> db)" where
  "updateOrderPayment req phase requestOrderId d =
     (case find (\<lambda>u. u_email u = toLowerCase (pr_email req)) (users d) of
        None \<Rightarrow> Inl TypeError
      | Some USER \<Rightarrow>
          (let CLIENT_ID = find (\<lambda>c. c_userId c = u_id USER) (clients d);
               CURRENCY_ID = find (\<lambda>c. cur_currencyCode c = sum_currencyCode (pr_paymentSummary req))
                               (currencies d)
           in if js_gt0 (pr_orderId req) \<or> js_truthy requestOrderId then
                (let orderId = js_or (pr_orderId req) requestOrderId;
                     orderPaymentId = find (\<lambda>p. opd_orderId p = orderId) (orderPaymentDetails d);
                     EXTRAS_IDS = sum_extrasList (pr_paymentSummary req)
                 in (case orderPaymentId of
                       Some _ \<Rightarrow>
                         (case CURRENCY_ID of
                            None \<Rightarrow> Inl TypeError
                          | Some cur \<Rightarrow>
                              (let d1 = d\<lparr>orderPaymentDetails :=
                                          map (\<lambda>p. if opd_orderId p = orderId
                                                    then p\<lparr>opd_currencyId := cur_id cur,
                                                           opd_extras := String_ids EXTRAS_IDS,
                                                           opd_extrasTotalPrice :=
                                                             sum_extrasTotalPrice (pr_paymentSummary req),
                                                           opd_totalPrice := sum_totalPrice (pr_paymentSummary req),
                                                           opd_cpp := sum_cpp (pr_paymentSummary req)\<rparr>
                                                    else p)
                                            (orderPaymentDetails d)\<rparr>
                               in if phase = ''check-order'' then
                                    (case CLIENT_ID of
                                       None \<Rightarrow> Inl TypeError
                                     | Some cl \<Rightarrow>
                                         Inr (SuccessNewOrderFalse,
                                              d1\<lparr>clientOrderPostingSteps := clientOrderPostingSteps d1 @
                                                    [\<lparr>step_clientId = c_id cl, step_orderId = orderId,
                                                      step_lastStep = 3\<rparr>]\<rparr>))
                                  else Inr (SuccessNewOrderFalse, d1)))
                     | None \<Rightarrow>
                         (case CURRENCY_ID of
                            None \<Rightarrow> Inl TypeError
                          | Some cur \<Rightarrow>
                              (let d1 = d\<lparr>orderPaymentDetails := orderPaymentDetails d @
                                          [\<lparr>opd_orderId = requestOrderId,
                                            opd_currencyId = cur_id cur,
                                            opd_extras = String_ids EXTRAS_IDS,
                                            opd_extrasTotalPrice = sum_extrasTotalPrice (pr_paymentSummary req),
                                            opd_totalPrice = sum_totalPrice (pr_paymentSummary req),
                                            opd_cpp = sum_cpp (pr_paymentSummary req)\<rparr>]\<rparr>;
                                   clientIdInner = find (\<lambda>x. Some (o_id x) = orderId) (orders d1)
                               in if phase = ''check-order'' then
                                    (case clientIdInner of
                                       None \<Rightarrow> Inl TypeError
                                     | Some ord \<Rightarrow>
                                         Inr (SuccessOrderId orderId,
                                              d1\<lparr>clientOrderPostingSteps := clientOrderPostingSteps d1 @
                                                    [\<lparr>step_clientId = o_clientId ord, step_orderId = orderId,
                                                      step_lastStep = 3\<rparr>]\<rparr>))
                                  else Inr (SuccessOrderId orderId, d1)))))
              else Inr (NoOrderID, d)))"

definition saveOrderPaymentDetails :: "PaymentReq \<Rightarrow> db \<Rightarrow> js_error + (PaymentResult \<times> db)" where
  "saveOrderPaymentDetails req d = updateOrderPayment req ''check-order'' None d"

section \<open>Order status and assignment\<close>

record StatusReq =
  sr_orderId :: int
  sr_writerId :: int
  sr_type :: string

record StatusResult =
  statusUpdated :: bool
  writerAlreadyChosen :: bool
  message :: "string option"

text \<open>
  \<open>Model.update\<close> resolves to the array \<open>[affectedCount]\<close> and \<open>Model.create\<close> to the new
  instance; both are truthy in JavaScript whatever they hold.
\<close>

definition js_truthy_array :: "nat list \<Rightarrow> bool" where
  "js_truthy_array a = True"

definition js_truthy_object :: "'a \<Rightarrow> bool" where
  "js_truthy_object x = True"

definition updateOrderStatus :: "StatusReq \<Rightarrow> db \<Rightarrow> js_error + (StatusResult \<times> db)" where
  "updateOrderStatus req d =
     (case find (\<lambda>s. pst_status s = ''Success'') (paymentStatuses d) of
        None \<Rightarrow> Inl TypeError
      | Some SUCCESS_PAYMENT_STATUS \<Rightarrow>
          (let ORDER_ALREADY_PAID_FOR =
                 find (\<lambda>p. cp_orderId p = sr_orderId req \<and> cp_statusId p = pst_id SUCCESS_PAYMENT_STATUS)
                   (clientPayments d);
               orderStatus0 = (if ORDER_ALREADY_PAID_FOR \<noteq> None then ''Ongoing'' else ''Pending payment'');
               orderStatus = (if sr_type req = ''private'' then ''Ongoing'' else orderStatus0)
           in (case find (\<lambda>s. os_status s = orderStatus) (orderStatuses d) of
                 None \<Rightarrow> Inl TypeError
               | Some PENDING_PAYMENT_STATUS \<Rightarrow>
                   (let d1 = d\<lparr>orders := map (\<lambda>x. if o_id x = sr_orderId req
                                                    then x\<lparr>o_statusId := os_id PENDING_PAYMENT_STATUS\<rparr>
                                                    else x) (orders d)\<rparr>;
                        orderStatusUpdated = [length (filter (\<lambda>x. o_id x = sr_orderId req) (orders d))]
                    in if js_truthy_array orderStatusUpdated then
                         (case find (\<lambda>w. w_userId w = sr_writerId req) (writers d1) of
                            None \<Rightarrow> Inl TypeError
                          | Some WRITER \<Rightarrow>
                              (let WRITER_ALREADY_CHOSEN =
                                     find (\<lambda>a. wo_orderId a = sr_orderId req \<and> wo_writerId a = w_id WRITER)
                                       (writerOrders d1);
                                   d2 = (if sr_type req = ''public''
                                         then d1\<lparr>orderBids :=
                                                   map (\<lambda>b. if b_orderId b = sr_orderId req \<and>
                                                                b_writerId b = w_id WRITER
                                                             then b\<lparr>b_successful := True\<rparr> else b)
                                                     (orderBids d1)\<rparr>
                                         else d1)
                               in if WRITER_ALREADY_CHOSEN \<noteq> None then
                                    Inr (\<lparr>statusUpdated = True, writerAlreadyChosen = True, message = None\<rparr>, d2)
                                  else
                                    (let writerAssigned = \<lparr>wo_orderId = sr_orderId req, wo_writerId = w_id WRITER\<rparr>;
                                         d3 = d2\<lparr>writerOrders := writerOrders d2 @ [writerAssigned]\<rparr>
                                     in if js_truthy_object writerAssigned then
                                          Inr (\<lparr>statusUpdated = True, writerAlreadyChosen = False,
                                                message = None\<rparr>, d3)
                                        else
                                          Inr (\<lparr>statusUpdated = False, writerAlreadyChosen = False,
                                                message = None\<rparr>, d3))))
                       else Inr (\<lparr>statusUpdated = False, writerAlreadyChosen = False,
                                  message = Some ''Failed to update order status''\<rparr>, d1)))))"

section \<open>Rating aggregation\<close>

record RatingReq =
  rr_orderId :: int
  rr_rating :: js_number

datatype RatingResult =
    RatedObject      \<comment> \<open>\<open>{rated: true}\<close>\<close>
  | RatingBool bool  \<comment> \<open>a bare boolean\<close>

definition rateWriter :: "RatingReq \<Rightarrow> db \<Rightarrow> js_error + (RatingResult \<times> db)" where
  "rateWriter req d =
     (if find (\<lambda>r. wr_orderId r = rr_orderId req) (writerRatings d) \<noteq> None then Inr (RatedObject, d)
      else
        (case find (\<lambda>a. wo_orderId a = rr_orderId req) (writerOrders d) of
           None \<Rightarrow> Inl TypeError
         | Some WRITER \<Rightarrow>
             (if find (\<lambda>r. wr_orderId r = rr_orderId req \<and> wr_writerId r = wo_writerId WRITER)
                   (writerRatings d) \<noteq> None
              then Inr (RatingBool True, d)
              else
                (let rated = \<lparr>wr_orderId = rr_orderId req, wr_writerId = wo_writerId WRITER,
                              wr_rating = rr_rating req\<rparr>;
                     d1 = d\<lparr>writerRatings := writerRatings d @ [rated]\<rparr>
                 in if js_truthy_object rated then
                      (case find (\<lambda>a. war_writerId a = wo_writerId WRITER) (writerAverageRatings d1) of
                         Some AVERAGE_RATING \<Rightarrow>
                           (let PREVIOUS_RATINGS =
                                  filter (\<lambda>r. wr_writerId r = wo_writerId WRITER) (writerRatings d1);
                                totalRating =
                                  js_add (js_mul (war_rating AVERAGE_RATING)
                                            (Finite (of_int (int (length PREVIOUS_RATINGS) - 1))))
                                    (rr_rating req);
                                NEW_AVERAGE_RATING = js_div_length totalRating (length PREVIOUS_RATINGS);
                                writerRatingAdded =
                                  [length (filter (\<lambda>a. war_writerId a = wo_writerId WRITER)
                                             (writerAverageRatings d1))]
                            in Inr (RatingBool (js_truthy_array writerRatingAdded),
                                    d1\<lparr>writerAverageRatings :=
                                         map (\<lambda>a. if war_writerId a = wo_writerId WRITER
                                                   then a\<lparr>war_rating := NEW_AVERAGE_RATING\<rparr> else a)
                                           (writerAverageRatings d1)\<rparr>))
                       | None \<Rightarrow>
                           (let writerRatingAdded = \<lparr>war_writerId = wo_writerId WRITER,
                                                     war_rating = rr_rating req\<rparr>
                            in Inr (RatingBool (js_truthy_object writerRatingAdded),
                                    d1\<lparr>writerAverageRatings := writerAverageRatings d1 @ [writerRatingAdded]\<rparr>)))
                    else Inr (RatingBool False, d1)))))"


section \<open>The resume projection\<close>

text \<open>
  \<open>paperDiscount\<close> in the result is the number 0, the row found by the tier lookup (read
  with \<open>attributes: ['discount']\<close>, so it holds the discount alone), or \<open>null\<close>.
\<close>

datatype DiscountValue = DNumber int | DRow rat | DNull

definition tierLookup :: "int \<Rightarrow> db \<Rightarrow> PaperDiscount option" where
  "tierLookup pageCount d = find (\<lambda>t. pd_lowerLimit t \<ge> pageCount) (paperDiscounts d)"

definition finalDiscount :: "int \<Rightarrow> db \<Rightarrow> DiscountValue" where
  "finalDiscount pageCount d =
     (let DISCOUNT = tierLookup pageCount d
      in if pageCount = 1 then DNumber 0
         else (case DISCOUNT of None \<Rightarrow> DNull | Some t \<Rightarrow> DRow (pd_discount t)))"

definition UNPAID_ORDERS_STATUSES :: "string list" where
  "UNPAID_ORDERS_STATUSES =
     [''Pending payment'', ''Pending writer acknowledgement'', ''Available'', ''Bidding ongoing'']"

record Resume =
  res_orderDetails :: Order
  res_paperDiscount :: DiscountValue
  res_orderPostingStep :: "ClientOrderPostingStep option"
  res_orderPaymentDetails :: "OrderPaymentDetail option"
  res_orderAlreadyPaidFor :: bool
  res_orderAssignment :: "WriterOrder option"
  res_orderFiles :: "OrderFile list"

datatype OrderDetailsResult =
    NoOrder          \<comment> \<open>\<open>orderDetails: null, orderPostingStep: null\<close>\<close>
  | Finished         \<comment> \<open>\<open>orderDetails: null, orderPostingStep: 'Finished'\<close>\<close>
  | Pending Resume   \<comment> \<open>the order with its discount, payment details, assignment and files\<close>

text \<open>
  \<open>orderDetails (client, orderId, gotStarted)\<close>. It only reads. The fields \<open>type\<close>, \<open>user\<close>
  and \<open>loginVia\<close> of the result repeat the \<open>client\<close> argument and are left out, as are the
  reference rows joined to the order.
\<close>

definition orderDetails :: "Client \<Rightarrow> int option \<Rightarrow> bool \<Rightarrow> db \<Rightarrow> js_error + OrderDetailsResult" where
  "orderDetails client orderId gotStarted d =
     (let myQuery = (if js_truthy orderId
                     then (\<lambda>x. o_clientId x = c_id client \<and> Some (o_id x) = orderId)
                     else (\<lambda>x. o_clientId x = c_id client))
      in (case find_latest myQuery (orders d) of
            None \<Rightarrow> Inr NoOrder
          | Some LATEST_ORDER \<Rightarrow>
              (let fd = finalDiscount (o_pageCount LATEST_ORDER) d
               in (case find (\<lambda>x. o_id x = o_id LATEST_ORDER) (orders d) of
                     None \<Rightarrow> Inl TypeError
                   | Some ORDER_PAID \<Rightarrow>
                       (case find (\<lambda>s. os_id s = o_statusId ORDER_PAID) (orderStatuses d) of
                          None \<Rightarrow> Inl TypeError
                        | Some st \<Rightarrow>
                            (let orderAlreadyPaid0 = (if gotStarted then True else False);
                                 orderAlreadyPaid =
                                   (if os_status st \<notin> set UNPAID_ORDERS_STATUSES then True
                                    else orderAlreadyPaid0)
                             in if orderAlreadyPaid then Inr Finished
                                else
                                  (let ORDER_PAYMENT_DETAILS =
                                         find (\<lambda>p. opd_orderId p = Some (o_id LATEST_ORDER))
                                           (orderPaymentDetails d)
                                   in (case find (\<lambda>s. pst_status s = ''Success'') (paymentStatuses d) of
                                         None \<Rightarrow> Inl TypeError
                                       | Some ORDER_PAYMENT_STATUS \<Rightarrow>
                                           (let ORDER_ALREADY_PAID_FOR =
                                                  find (\<lambda>p. cp_statusId p = pst_id ORDER_PAYMENT_STATUS \<and>
                                                             cp_orderId p = o_id LATEST_ORDER)
                                                    (clientPayments d);
                                                ORDER_ASSIGNMENT =
                                                  find (\<lambda>a. wo_orderId a = o_id LATEST_ORDER) (writerOrders d)
                                            in (case find (\<lambda>t. oft_type t = ''Client Supporting'')
                                                       (orderFileTypes d) of
                                                  None \<Rightarrow> Inl TypeError
                                                | Some ORDER_FILE_TYPE \<Rightarrow>
                                                    Inr (Pending
                                                      \<lparr>res_orderDetails = LATEST_ORDER,
                                                       res_paperDiscount = fd,
                                                       res_orderPostingStep =
                                                         find_latest (\<lambda>p. step_clientId p = c_id client)
                                                           (clientOrderPostingSteps d),
                                                       res_orderPaymentDetails = ORDER_PAYMENT_DETAILS,
                                                       res_orderAlreadyPaidFor = (ORDER_ALREADY_PAID_FOR \<noteq> None),
                                                       res_orderAssignment = ORDER_ASSIGNMENT,
                                                       res_orderFiles =
                                                         filter (\<lambda>f. of_orderId f = o_id LATEST_ORDER \<and>
                                                                     \<not> of_isDeleted f \<and>
                                                                     of_type f = oft_id ORDER_FILE_TYPE)
                                                           (orderFiles d)\<rparr>)))))))))))"

section \<open>Ownership check and revision workflow\<close>

definition confirmOrderOwnership :: "string \<Rightarrow> int \<Rightarrow> db \<Rightarrow> js_error + Order option" where
  "confirmOrderOwnership email orderId d =
     (case getClientId email d of
        Inl e \<Rightarrow> Inl e
      | Inr CLIENT_ID \<Rightarrow> Inr (find (\<lambda>x. o_id x = orderId \<and> o_clientId x = CLIENT_ID) (orders d)))"

record SupportingFile =
  sf_fileUrl :: string
  sf_originalName :: string

text \<open>
  The checklist is an object whose entries have a flag \<open>key\<close> and a text \<open>val\<close>; it is an
  association list in the order \<open>for ... in\<close> visits it.
\<close>

record RevisionReq =
  rq_email :: string
  rq_orderId :: int
  rq_checklist :: "(string \<times> bool \<times> string) list"
  rq_supportingFiles :: "SupportingFile list"
  rq_deadline_date :: string
  rq_deadline_time :: string

datatype RevisionResult =
    RevisionSuccess          \<comment> \<open>\<open>{success: true}\<close>\<close>
  | RevisionFailure string   \<comment> \<open>\<open>{success: false, message}\<close>\<close>

text \<open>The loop that attaches the supporting files of a revision, one \<open>OrderFile\<close> row each.\<close>

fun attachRevisionFiles ::
  "int \<Rightarrow> OrderFileType option \<Rightarrow> SupportingFile list \<Rightarrow> db \<Rightarrow> js_error + db" where
  "attachRevisionFiles orderId ORDER_FILE_TYPE [] d = Inr d"
| "attachRevisionFiles orderId ORDER_FILE_TYPE (f # fs) d =
     (case originalNameFormatter (sf_originalName f) of
        Inl e \<Rightarrow> Inl e
      | Inr FINAL_ORIGINAL_NAME \<Rightarrow>
          (case ORDER_FILE_TYPE of
             None \<Rightarrow> Inl TypeError
           | Some t \<Rightarrow>
               attachRevisionFiles orderId ORDER_FILE_TYPE fs
                 (d\<lparr>orderFiles := orderFiles d @
                      [\<lparr>of_orderId = orderId, of_fileUrl = sf_fileUrl f,
                        of_originalName = FINAL_ORIGINAL_NAME, of_type = oft_id t,
                        of_isDeleted = False, of_submittedPaper = False\<rparr>]\<rparr>)))"

definition revisionRequest :: "RevisionReq \<Rightarrow> db \<Rightarrow> js_error + (RevisionResult \<times> db)" where
  "revisionRequest req d =
     (let USER = find (\<lambda>u. u_email u = toLowerCase (rq_email req)) (users d)
      in (case getClientId (rq_email req) d of
            Inl e \<Rightarrow> Inl e
          | Inr CLIENT_ID \<Rightarrow>
              (case find (\<lambda>x. o_id x = rq_orderId req \<and> o_clientId x = CLIENT_ID) (orders d) of
                 None \<Rightarrow> Inr (RevisionFailure ''Order does not exist'', d)
               | Some orderExists \<Rightarrow>
                   (let CHECKLIST = map (\<lambda>(k, sel, v). (k, v))
                                      (filter (\<lambda>(k, sel, v). sel) (rq_checklist req));
                        SUPPORTING_FILES = rq_supportingFiles req
                    in (case (if length SUPPORTING_FILES > 0
                              then attachRevisionFiles (rq_orderId req)
                                     (find (\<lambda>t. oft_type t = ''Revision Supporting'') (orderFileTypes d))
                                     SUPPORTING_FILES d
                              else Inr d) of
                          Inl e \<Rightarrow> Inl e
                        | Inr d1 \<Rightarrow>
                            (case find (\<lambda>x. o_id x = rq_orderId req) (orders d1) of
                               None \<Rightarrow> Inl TypeError
                             | Some ORDER_STATUS \<Rightarrow>
                                 (case find (\<lambda>s. os_id s = o_statusId ORDER_STATUS) (orderStatuses d1) of
                                    None \<Rightarrow> Inl TypeError
                                  | Some st \<Rightarrow>
                                      (case (if os_status st \<noteq> ''Undergoing revision''
                                             then (case find (\<lambda>s. os_status s = ''Undergoing revision'')
                                                         (orderStatuses d1) of
                                                     None \<Rightarrow> Inl TypeError
                                                   | Some REVISION_ORDER_STATUS \<Rightarrow>
                                                       Inr (d1\<lparr>orders :=
                                                              map (\<lambda>x. if o_id x = rq_orderId req
                                                                        then x\<lparr>o_statusId :=
                                                                               os_id REVISION_ORDER_STATUS\<rparr>
                                                                        else x) (orders d1)\<rparr>))
                                             else Inr d1) of
                                         Inl e \<Rightarrow> Inl e
                                       | Inr d2 \<Rightarrow>
                                           (let DEADLINE_TIME_ARRAY = js_split CHR '':'' (rq_deadline_time req);
                                                DEADLINE = \<lparr>dl_date = rq_deadline_date req,
                                                            dl_hours = js_index DEADLINE_TIME_ARRAY 0,
                                                            dl_minutes = js_index DEADLINE_TIME_ARRAY 1\<rparr>
                                            in (case USER of
                                                  None \<Rightarrow> Inl TypeError
                                                | Some u \<Rightarrow>
                                                    (let revisionRequested =
                                                           \<lparr>rev_orderId = rq_orderId req,
                                                            rev_revisionInstructions = CHECKLIST,
                                                            rev_deadline = DEADLINE,
                                                            rev_creator = u_id u,
                                                            rev_submitted = False,
                                                            rev_isDeleted = False\<rparr>;
                                                         d3 = d2\<lparr>orderRevisions :=
                                                                  orderRevisions d2 @ [revisionRequested]\<rparr>
                                                     in if js_truthy_object revisionRequested
                                                        then Inr (RevisionSuccess, d3)
                                                        else Inr (RevisionFailure ''Failed to add entry'',
                                                                  d3))))))))))))"


section \<open>Notions used to state the properties\<close>

text \<open>The ratings stored for a writer, and the averages stored for a writer, in table order.\<close>

definition ratingsOf :: "int \<Rightarrow> db \<Rightarrow> js_number list" where
  "ratingsOf w d = map wr_rating (filter (\<lambda>r. wr_writerId r = w) (writerRatings d))"

definition averagesOf :: "int \<Rightarrow> db \<Rightarrow> js_number list" where
  "averagesOf w d = map war_rating (filter (\<lambda>a. war_writerId a = w) (writerAverageRatings d))"

definition arithmetic_mean :: "rat list \<Rightarrow> rat" where
  "arithmetic_mean xs = sum_list xs / of_nat (length xs)"

text \<open>An exact result that is a double already: the operation giving it does not round.\<close>

definition exact_double :: "rat \<Rightarrow> bool" where
  "exact_double x = (round_double x = Finite x)"

text \<open>
  An order is successfully paid when one of its \<open>ClientPayment\<close> rows carries the id of the
  payment status named \<open>Success\<close> (the row the lookup by name returns).
\<close>

definition successfullyPaid :: "int \<Rightarrow> db \<Rightarrow> bool" where
  "successfullyPaid orderId d =
     (\<exists>p \<in> set (clientPayments d). cp_orderId p = orderId \<and>
        Some (cp_statusId p) = map_option pst_id (find (\<lambda>s. pst_status s = ''Success'') (paymentStatuses d)))"

definition targetStatus :: "StatusReq \<Rightarrow> db \<Rightarrow> string" where
  "targetStatus req d =
     (if successfullyPaid (sr_orderId req) d \<or> sr_type req = ''private''
      then ''Ongoing'' else ''Pending payment'')"

text \<open>The assignments of one writer to one order.\<close>

definition assignmentsOf :: "int \<Rightarrow> int \<Rightarrow> db \<Rightarrow> WriterOrder list" where
  "assignmentsOf orderId writerId d =
     filter (\<lambda>a. wo_orderId a = orderId \<and> wo_writerId a = writerId) (writerOrders d)"

section \<open>A sample store\<close>

text \<open>
  Two clients (Ann, Bob) and one writer. Ann owns the orders 3, 4 and 5; the writer is
  assigned to orders 3 and 4 and has been rated 4 on order 3. Order 5 has five pages, no
  payment detail and no assignment yet.
\<close>

definition db_example :: db where
  "db_example =
     \<lparr>users = [\<lparr>u_id = 1, u_email = ''ann@example.org''\<rparr>,
               \<lparr>u_id = 2, u_email = ''bob@example.org''\<rparr>,
               \<lparr>u_id = 3, u_email = ''writer@example.org''\<rparr>],
      clients = [\<lparr>c_id = 10, c_userId = 1\<rparr>, \<lparr>c_id = 11, c_userId = 2\<rparr>],
      currencies = [\<lparr>cur_id = 1, cur_currencyCode = ''USD''\<rparr>],
      orderStatuses = [\<lparr>os_id = 1, os_status = ''Available''\<rparr>,
                       \<lparr>os_id = 2, os_status = ''Pending payment''\<rparr>,
                       \<lparr>os_id = 3, os_status = ''Ongoing''\<rparr>,
                       \<lparr>os_id = 4, os_status = ''Undergoing revision''\<rparr>,
                       \<lparr>os_id = 5, os_status = ''Completed''\<rparr>],
      paymentStatuses = [\<lparr>pst_id = 1, pst_status = ''Success''\<rparr>],
      orders = [\<lparr>o_id = 3, o_clientId = 10, o_statusId = 5, o_pageCount = 1\<rparr>,
                \<lparr>o_id = 4, o_clientId = 10, o_statusId = 5, o_pageCount = 3\<rparr>,
                \<lparr>o_id = 5, o_clientId = 10, o_statusId = 1, o_pageCount = 5\<rparr>],
      clientPayments = [],
      orderPaymentDetails = [],
      clientOrderPostingSteps = [],
      writers = [\<lparr>w_id = 7, w_userId = 3\<rparr>],
      writerOrders = [\<lparr>wo_orderId = 3, wo_writerId = 7\<rparr>, \<lparr>wo_orderId = 4, wo_writerId = 7\<rparr>],
      orderBids = [\<lparr>b_orderId = 5, b_writerId = 7, b_successful = False\<rparr>],
      writerRatings = [\<lparr>wr_orderId = 3, wr_writerId = 7, wr_rating = Finite 4\<rparr>],
      writerAverageRatings = [\<lparr>war_writerId = 7, war_rating = Finite 4\<rparr>],
      paperDiscounts = [\<lparr>pd_lowerLimit = 2, pd_discount = 5\<rparr>,
                        \<lparr>pd_lowerLimit = 10, pd_discount = 10\<rparr>],
      orderFileTypes = [\<lparr>oft_id = 1, oft_type = ''Client Supporting''\<rparr>,
                        \<lparr>oft_id = 2, oft_type = ''Revision Supporting''\<rparr>],
      orderFiles = [],
      orderRevisions = []\<rparr>"

text \<open>The sample store after the writer (user 3) has been chosen for the public order 5.\<close>

definition db_example_assigned :: db where
  "db_example_assigned =
     db_example
       \<lparr>orders := [\<lparr>o_id = 3, o_clientId = 10, o_statusId = 5, o_pageCount = 1\<rparr>,
                   \<lparr>o_id = 4, o_clientId = 10, o_statusId = 5, o_pageCount = 3\<rparr>,
                   \<lparr>o_id = 5, o_clientId = 10, o_statusId = 2, o_pageCount = 5\<rparr>],
        writerOrders := [\<lparr>wo_orderId = 3, wo_writerId = 7\<rparr>, \<lparr>wo_orderId = 4, wo_writerId = 7\<rparr>,
                         \<lparr>wo_orderId = 5, wo_writerId = 7\<rparr>],
        orderBids := [\<lparr>b_orderId = 5, b_writerId = 7, b_successful = True\<rparr>]\<rparr>"

text \<open>The sample store after order 4 has been rated 5.\<close>

definition db_example_rated :: db where
  "db_example_rated =
     db_example
       \<lparr>writerRatings := [\<lparr>wr_orderId = 3, wr_writerId = 7, wr_rating = Finite 4\<rparr>,
                          \<lparr>wr_orderId = 4, wr_writerId = 7, wr_rating = Finite 5\<rparr>],
        writerAverageRatings := [\<lparr>war_writerId = 7, war_rating = Finite (9 / 2)\<rparr>]\<rparr>"



text \<open>
  A store where the writer has the ratings 5, 5, 5, 5, 5, 3 and 1 and the average
  4.142857142857143, the double nearest to their mean 29/7, and the unrated order 8; and
  the store after order 8 has been rated 1.
\<close>

definition db_seven_ratings :: db where
  "db_seven_ratings =
     db_example
       \<lparr>writerOrders := [\<lparr>wo_orderId = 8, wo_writerId = 7\<rparr>],
        writerRatings := [\<lparr>wr_orderId = 1, wr_writerId = 7, wr_rating = Finite 5\<rparr>,
                          \<lparr>wr_orderId = 2, wr_writerId = 7, wr_rating = Finite 5\<rparr>,
                          \<lparr>wr_orderId = 3, wr_writerId = 7, wr_rating = Finite 5\<rparr>,
                          \<lparr>wr_orderId = 4, wr_writerId = 7, wr_rating = Finite 5\<rparr>,
                          \<lparr>wr_orderId = 5, wr_writerId = 7, wr_rating = Finite 5\<rparr>,
                          \<lparr>wr_orderId = 6, wr_writerId = 7, wr_rating = Finite 3\<rparr>,
                          \<lparr>wr_orderId = 7, wr_writerId = 7, wr_rating = Finite 1\<rparr>],
        writerAverageRatings :=
          [\<lparr>war_writerId = 7, war_rating = Finite (4664442471205157 / 1125899906842624)\<rparr>]\<rparr>"

definition db_eight_ratings :: db where
  "db_eight_ratings =
     db_seven_ratings
       \<lparr>writerRatings := writerRatings db_seven_ratings @
                            [\<lparr>wr_orderId = 8, wr_writerId = 7, wr_rating = Finite 1\<rparr>],
        writerAverageRatings :=
          [\<lparr>war_writerId = 7, war_rating = Finite (8444249301319681 / 2251799813685248)\<rparr>]\<rparr>"

section \<open>Properties of the filename sanitizer\<close>

lemma js_split_not_Nil: "js_split c s \<noteq> []"
  by (induction s) (auto split: list.splits)

lemma js_split_no_sep: "c \<notin> set s \<Longrightarrow> js_split c s = [s]"
  by (induction s) auto

lemma js_split_append: "js_split c (a @ c # b) = js_split c a @ js_split c b"
proof (induction a)
  case Nil
  show ?case by simp
next
  case (Cons x a)
  obtain seg segs where sp: "js_split c a = seg # segs"
    using js_split_not_Nil [of c a] by (cases "js_split c a") auto
  show ?case using Cons sp by simp
qed

lemma js_join_split: "js_join [c] (js_split c s) = s"
proof (induction s)
  case Nil
  show ?case by simp
next
  case (Cons x s)
  obtain seg segs where sp: "js_split c s = seg # segs"
    using js_split_not_Nil [of c s] by (cases "js_split c s") auto
  show ?case
  proof (cases "x = c")
    case True
    then show ?thesis using Cons sp by simp
  next
    case False
    then show ?thesis using Cons sp by (cases segs) auto
  qed
qed

lemma js_split_single: "js_split c s = [x] \<Longrightarrow> x = s"
  using js_join_split [of c s] by simp

lemma js_index_last: "xs \<noteq> [] \<Longrightarrow> js_index xs (length xs - 1) = Some (last xs)"
proof (induction xs)
  case Nil
  then show ?case by simp
next
  case (Cons x xs)
  then show ?case by (cases xs) auto
qed

text \<open>Names of at most 50 characters come back as they are.\<close>

lemma originalNameFormatter_short:
  "length s \<le> 50 \<Longrightarrow> originalNameFormatter s = Inr s"
  by (simp add: originalNameFormatter_def MAX_ORIGINAL_NAME_LENGTH_def)

text \<open>
  A long name with a dot: the part after the last dot is the extension, the part before
  it the stem, and the stem goes through \<open>slice(0, 50 - extension.length - 1)\<close>.
\<close>

lemma originalNameFormatter_parts:
  assumes "CHR ''.'' \<notin> set ext" and "50 < length (stem @ ''.'' @ ext)"
  shows "originalNameFormatter (stem @ ''.'' @ ext) =
           Inr (js_slice0 stem (49 - int (length ext)) @ ''.'' @ ext)"
proof -
  let ?sp = "js_split CHR ''.'' (stem @ ''.'' @ ext)"
  have sp: "?sp = js_split CHR ''.'' stem @ [ext]"
    using js_split_append [of "CHR ''.''" stem ext] js_split_no_sep [OF assms(1)] by simp
  have ne: "js_split CHR ''.'' stem \<noteq> []" by (rule js_split_not_Nil)
  show ?thesis
  proof (cases "length ?sp > 2")
    case True
    have "js_index ?sp (length ?sp - 1) = Some ext"
      using js_index_last [of ?sp] sp by simp
    moreover have "js_join ''.'' (butlast ?sp) = stem"
      using sp js_join_split [of "CHR ''.''" stem] by simp
    ultimately show ?thesis using True assms(2)
      by (simp add: originalNameFormatter_def MAX_ORIGINAL_NAME_LENGTH_def Let_def)
  next
    case False
    then obtain x where x: "js_split CHR ''.'' stem = [x]"
      using sp ne by (cases "js_split CHR ''.'' stem") auto
    have "x = stem" using js_split_single [OF x] .
    then have "?sp = [stem, ext]" using sp x by simp
    then show ?thesis using assms(2)
      by (simp add: originalNameFormatter_def MAX_ORIGINAL_NAME_LENGTH_def Let_def)
  qed
qed

lemma originalNameFormatter_no_dot:
  assumes "50 < length s" and "CHR ''.'' \<notin> set s"
  shows "originalNameFormatter s = Inl TypeError"
  using assms js_split_no_sep [OF assms(2)]
  by (simp add: originalNameFormatter_def MAX_ORIGINAL_NAME_LENGTH_def)

lemma last_dot_decomposition:
  assumes "CHR ''.'' \<in> set s"
  shows "\<exists>stem ext. s = stem @ ''.'' @ ext \<and> CHR ''.'' \<notin> set ext"
  using split_list_last [OF assms] by auto

text \<open>
  Claim C3: for every display name the sanitizer returns a string of at most 50 characters
  that keeps the extension. The comment above the function promises the bound. The function
  breaks it in two places: a 51-character name without a dot makes it throw, and a name
  whose extension has 60 characters comes back with 61 characters.
\<close>

theorem originalNameFormatter_bound_broken:
  "originalNameFormatter (replicate 51 CHR ''x'') = Inl TypeError \<and>
   originalNameFormatter (''a.'' @ replicate 60 CHR ''b'') = Inr (''.'' @ replicate 60 CHR ''b'') \<and>
   length (''.'' @ replicate 60 CHR ''b'') = 61"
  by code_simp

text \<open>
  Claim C4: every name longer than 50 characters with a dot comes back as the stem cut to
  \<open>50 - extensionLength - 1\<close> characters, a dot and the extension. The comments on the
  function and at its callers promise a name of at most 50 characters, the extension
  included. With a stem of 20 characters and an extension of 60 the slice end
  \<open>50 - 60 - 1\<close> is negative, and \<open>slice\<close> then drops 11 characters from the end of the
  stem instead of cutting it to a length: 9 characters of the stem stay, and the name that
  comes back has 70 characters.
\<close>

theorem originalNameFormatter_long_extension:
  "50 < length (replicate 20 CHR ''a'' @ ''.'' @ replicate 60 CHR ''b'') \<and>
   originalNameFormatter (replicate 20 CHR ''a'' @ ''.'' @ replicate 60 CHR ''b'') =
     Inr (replicate 9 CHR ''a'' @ ''.'' @ replicate 60 CHR ''b'') \<and>
   length (replicate 9 CHR ''a'' @ ''.'' @ replicate 60 CHR ''b'') = 70 \<and>
   originalNameFormatter (replicate 20 CHR ''a'' @ ''.'' @ replicate 60 CHR ''b'') \<noteq>
     Inr (take (nat (50 - int (length (replicate 60 CHR ''b'')) - 1)) (replicate 20 CHR ''a'')
          @ ''.'' @ replicate 60 CHR ''b'')"
  by code_simp

text \<open>
  Where the part after the last dot (the extension) has at most 49 characters, the
  sanitizer does what is described: it returns the first \<open>50 - extensionLength - 1\<close>
  characters of the part before the last dot, a dot and the extension, which is a string
  of exactly 50 characters.
\<close>

lemma originalNameFormatter_truncates_stem:
  assumes "50 < length (stem @ ''.'' @ ext)" and "CHR ''.'' \<notin> set ext" and "length ext \<le> 49"
  shows "originalNameFormatter (stem @ ''.'' @ ext) = Inr (take (49 - length ext) stem @ ''.'' @ ext) \<and>
         length (take (49 - length ext) stem @ ''.'' @ ext) = 50"
proof -
  have "js_slice0 stem (49 - int (length ext)) = take (49 - length ext) stem"
    using assms(1,3) by (simp add: js_slice0_def Let_def nat_diff_distrib')
  then show ?thesis
    using originalNameFormatter_parts [OF assms(2) assms(1)] assms(1,3) by simp
qed

lemma originalNameFormatter_truncates_stem_example:
  "50 < length (replicate 60 CHR ''a'' @ ''.'' @ ''pdf'') \<and> CHR ''.'' \<notin> set ''pdf'' \<and>
   length ''pdf'' \<le> 49 \<and>
   originalNameFormatter (replicate 60 CHR ''a'' @ ''.pdf'') = Inr (replicate 46 CHR ''a'' @ ''.pdf'') \<and>
   length (replicate 46 CHR ''a'' @ ''.pdf'') = 50"
  using originalNameFormatter_truncates_stem [of "replicate 60 CHR ''a''" "''pdf''"]
  by simp

text \<open>
  Claim C10: a name longer than 50 characters without a dot makes the sanitizer throw
  (the split has one segment, the extension is \<open>undefined\<close>); the sanitizer returns a name
  exactly for the names that have at most 50 characters or contain a dot.
\<close>

theorem originalNameFormatter_total_iff:
  "(50 < length s \<and> CHR ''.'' \<notin> set s \<longrightarrow> originalNameFormatter s = Inl TypeError) \<and>
   ((\<exists>r. originalNameFormatter s = Inr r) \<longleftrightarrow> (length s \<le> 50 \<or> CHR ''.'' \<in> set s))"
proof (cases "length s \<le> 50")
  case True
  then show ?thesis using originalNameFormatter_short [of s] by simp
next
  case long: False
  show ?thesis
  proof (cases "CHR ''.'' \<in> set s")
    case True
    then obtain stem ext where "s = stem @ ''.'' @ ext" "CHR ''.'' \<notin> set ext"
      using last_dot_decomposition by blast
    then show ?thesis using long True originalNameFormatter_parts [of ext stem] by simp
  next
    case False
    then show ?thesis using long originalNameFormatter_no_dot [of s] by simp
  qed
qed

theorem originalNameFormatter_total_iff_witness:
  "50 < length (replicate 64 CHR ''n'') \<and> CHR ''.'' \<notin> set (replicate 64 CHR ''n'') \<and>
   originalNameFormatter (replicate 64 CHR ''n'') = Inl TypeError \<and>
   \<not> (\<exists>r. originalNameFormatter (replicate 64 CHR ''n'') = Inr r)"
  using originalNameFormatter_total_iff [of "replicate 64 CHR ''n''"]
  by simp


section \<open>Lookups\<close>

lemma find_filter: "find P xs = (case filter P xs of [] \<Rightarrow> None | x # _ \<Rightarrow> Some x)"
  by (induction xs) auto

lemma find_Some_set: "find P xs = Some x \<Longrightarrow> x \<in> set xs \<and> P x"
  by (induction xs) (auto split: if_splits)

lemma find_Some_ex: "(\<exists>x. find P xs = Some x) = (\<exists>x\<in>set xs. P x)"
  using find_None_iff [of P xs] by (cases "find P xs") auto


section \<open>Properties of the resume projection\<close>

lemma finalDiscount_one_page: "finalDiscount 1 d = DNumber 0"
  by (simp add: finalDiscount_def)

lemma finalDiscount_row:
  assumes "finalDiscount pageCount d = DRow x"
  shows "\<exists>t\<in>set (paperDiscounts d). pd_discount t = x \<and> pageCount \<le> pd_lowerLimit t"
proof -
  obtain t where "tierLookup pageCount d = Some t" and "pd_discount t = x"
    using assms by (auto simp: finalDiscount_def Let_def split: if_splits option.splits)
  then show ?thesis
    using find_Some_set [of "\<lambda>t. pageCount \<le> pd_lowerLimit t" "paperDiscounts d" t]
    by (auto simp: tierLookup_def)
qed

text \<open>
  Claim C1: in the resume projection a page count of 1 gives the discount 0, and a page
  count above 1 gives the tier whose lower bound is at most the page count. The first half
  holds (\<open>finalDiscount_one_page\<close>). The lookup of the second half compares the wrong way
  round, \<open>lowerLimit >= pageCount\<close>: with tiers starting at 2 and at 10 pages, Ann's latest
  order of 5 pages gets the tier that starts at 10 pages, not the tier that starts at 2.
\<close>

theorem orderDetails_discount_tier_above_page_count:
  "orderDetails \<lparr>c_id = 10, c_userId = 1\<rparr> None False db_example =
     Inr (Pending
            \<lparr>res_orderDetails = \<lparr>o_id = 5, o_clientId = 10, o_statusId = 1, o_pageCount = 5\<rparr>,
             res_paperDiscount = DRow 10,
             res_orderPostingStep = None,
             res_orderPaymentDetails = None,
             res_orderAlreadyPaidFor = False,
             res_orderAssignment = None,
             res_orderFiles = []\<rparr>) \<and>
   tierLookup 5 db_example = Some \<lparr>pd_lowerLimit = 10, pd_discount = 10\<rparr> \<and>
   paperDiscounts db_example = [\<lparr>pd_lowerLimit = 2, pd_discount = 5\<rparr>, \<lparr>pd_lowerLimit = 10, pd_discount = 10\<rparr>]"
  by (simp add: orderDetails_def db_example_def finalDiscount_def tierLookup_def find_latest_def
        js_truthy_def UNPAID_ORDERS_STATUSES_def Let_def)

section \<open>Properties of payment recording\<close>

text \<open>
  The create branch in general: the new payment detail carries the looked-up currency, the
  joined extras ids, the totals and the cost per page of the request, and
  \<open>requestOrderId\<close> as its order; with phase \<open>check-order\<close> the step-3 posting step gets
  the resolved order id and the client id of that order.
\<close>

lemma updateOrderPayment_create_branch:
  assumes "find (\<lambda>u. u_email u = toLowerCase (pr_email req)) (users d) = Some USER"
      and "find (\<lambda>c. cur_currencyCode c = sum_currencyCode (pr_paymentSummary req)) (currencies d) = Some cur"
      and "js_gt0 (pr_orderId req) \<or> js_truthy requestOrderId"
      and "find (\<lambda>p. opd_orderId p = js_or (pr_orderId req) requestOrderId) (orderPaymentDetails d) = None"
      and "find (\<lambda>x. Some (o_id x) = js_or (pr_orderId req) requestOrderId) (orders d) = Some ord"
  shows "updateOrderPayment req ''check-order'' requestOrderId d =
           Inr (SuccessOrderId (js_or (pr_orderId req) requestOrderId),
                d\<lparr>orderPaymentDetails := orderPaymentDetails d @
                     [\<lparr>opd_orderId = requestOrderId,
                       opd_currencyId = cur_id cur,
                       opd_extras = String_ids (sum_extrasList (pr_paymentSummary req)),
                       opd_extrasTotalPrice = sum_extrasTotalPrice (pr_paymentSummary req),
                       opd_totalPrice = sum_totalPrice (pr_paymentSummary req),
                       opd_cpp = sum_cpp (pr_paymentSummary req)\<rparr>],
                  clientOrderPostingSteps := clientOrderPostingSteps d @
                     [\<lparr>step_clientId = o_clientId ord,
                       step_orderId = js_or (pr_orderId req) requestOrderId,
                       step_lastStep = 3\<rparr>]\<rparr>)"
  using assms by (simp add: updateOrderPayment_def Let_def)

text \<open>
  Claim C2: when the order id resolves and the order has no payment detail yet, the new
  payment detail is attached to the resolved order id. The source passes
  \<open>orderId: requestOrderId\<close> to the insert, not the resolved \<open>orderId\<close> that the update
  branch and the posting step use; \<open>saveOrderPaymentDetails\<close> calls with
  \<open>requestOrderId = null\<close>, so for order 5 the new row has no order at all, while the
  step-3 posting step is created for order 5 and Ann's client id.
\<close>

theorem saveOrderPaymentDetails_detached_row:
  "saveOrderPaymentDetails
     \<lparr>pr_email = ''Ann@example.org'', pr_orderId = Some 5,
      pr_paymentSummary = \<lparr>sum_currencyCode = ''USD'', sum_extrasList = [1, 2],
                           sum_extrasTotalPrice = 3, sum_totalPrice = 20, sum_cpp = 4\<rparr>\<rparr>
     db_example =
   Inr (SuccessOrderId (Some 5),
        db_example
          \<lparr>orderPaymentDetails :=
             [\<lparr>opd_orderId = None, opd_currencyId = 1, opd_extras = ''1,2'',
               opd_extrasTotalPrice = 3, opd_totalPrice = 20, opd_cpp = 4\<rparr>],
           clientOrderPostingSteps :=
             [\<lparr>step_clientId = 10, step_orderId = Some 5, step_lastStep = 3\<rparr>]\<rparr>)"
  by code_simp

section \<open>Properties of the number model\<close>

text \<open>
  \<open>pow2\<close> is the power of two with an integer exponent; \<open>floor_log2\<close> gives the binary
  exponent of a positive rational; \<open>round_double\<close> of a positive \<open>x\<close> with binary exponent
  \<open>e\<close> is the multiple of \<open>pow2 (e - 52)\<close> nearest to \<open>x\<close>.
\<close>

lemma pow2_powi: "pow2 k = 2 powi k"
  by (simp add: pow2_def power_int_def inverse_eq_divide power_one_over)

lemma pow2_pos: "0 < pow2 k"
  by (simp add: pow2_powi)

lemma pow2_add: "pow2 (a + b) = pow2 a * pow2 b"
  by (simp add: pow2_powi power_int_add)

lemma pow2_less_iff: "pow2 a < pow2 b \<longleftrightarrow> a < b"
proof
  assume "pow2 a < pow2 b"
  show "a < b"
  proof (rule ccontr)
    assume "\<not> a < b"
    then have "b \<le> a" by simp
    then have "pow2 b \<le> pow2 a"
      unfolding pow2_powi by (intro power_int_increasing) simp_all
    with \<open>pow2 a < pow2 b\<close> show False by simp
  qed
next
  assume "a < b"
  then show "pow2 a < pow2 b"
    unfolding pow2_powi by (intro power_int_strict_increasing) simp_all
qed

lemma floor_log2_enclosure:
  assumes "0 < x" and q: "quotient_of x = (p, q)"
  shows "pow2 (bitlen p - bitlen q - 1) < x \<and> x < pow2 (bitlen p - bitlen q + 1)"
proof -
  have qpos: "0 < q" using quotient_of_denom_pos [OF q] .
  have x: "x = of_int p / of_int q" using quotient_of_div [OF q] .
  have ppos: "0 < p" using assms(1) qpos x by (simp add: zero_less_divide_iff)
  have bp: "1 \<le> bitlen p" "1 \<le> bitlen q"
    using ppos qpos by (auto simp: bitlen_alt_def)
  have pb: "(2::int) ^ nat (bitlen p - 1) \<le> p" "p < 2 ^ nat (bitlen p)"
    using bitlen_bounds [OF ppos] by simp_all
  have qb: "(2::int) ^ nat (bitlen q - 1) \<le> q" "q < 2 ^ nat (bitlen q)"
    using bitlen_bounds [OF qpos] by simp_all
  have P1: "pow2 (bitlen p - 1) \<le> of_int p"
  proof -
    have "pow2 (bitlen p - 1) = of_int (2 ^ nat (bitlen p - 1))"
      using bp by (simp add: pow2_def)
    also have "\<dots> \<le> of_int p" using pb(1) by (simp only: of_int_le_iff)
    finally show ?thesis .
  qed
  have P2: "of_int p < pow2 (bitlen p)"
  proof -
    have "pow2 (bitlen p) = of_int (2 ^ nat (bitlen p))"
      using bp by (simp add: pow2_def)
    moreover have "(of_int p :: rat) < of_int (2 ^ nat (bitlen p))" using pb(2) by (simp only: of_int_less_iff)
    ultimately show ?thesis by simp
  qed
  have Q1: "pow2 (bitlen q - 1) \<le> of_int q"
  proof -
    have "pow2 (bitlen q - 1) = of_int (2 ^ nat (bitlen q - 1))"
      using bp by (simp add: pow2_def)
    also have "\<dots> \<le> of_int q" using qb(1) by (simp only: of_int_le_iff)
    finally show ?thesis .
  qed
  have Q2: "of_int q < pow2 (bitlen q)"
  proof -
    have "pow2 (bitlen q) = of_int (2 ^ nat (bitlen q))"
      using bp by (simp add: pow2_def)
    moreover have "(of_int q :: rat) < of_int (2 ^ nat (bitlen q))" using qb(2) by (simp only: of_int_less_iff)
    ultimately show ?thesis by simp
  qed
  have qr: "(0::rat) < of_int q" using qpos by simp
  have lower: "pow2 (bitlen p - bitlen q - 1) < x"
  proof -
    have "pow2 (bitlen p - bitlen q - 1) * of_int q < pow2 (bitlen p - bitlen q - 1) * pow2 (bitlen q)"
      using Q2 pow2_pos by simp
    also have "\<dots> = pow2 (bitlen p - 1)"
      by (simp add: pow2_add [symmetric])
    also have "\<dots> \<le> of_int p" by (rule P1)
    finally show ?thesis using qr by (simp add: x pos_less_divide_eq)
  qed
  have upper: "x < pow2 (bitlen p - bitlen q + 1)"
  proof -
    have "of_int p < pow2 (bitlen p)" by (rule P2)
    also have "\<dots> = pow2 (bitlen p - bitlen q + 1) * pow2 (bitlen q - 1)"
      by (simp add: pow2_add [symmetric])
    also have "\<dots> \<le> pow2 (bitlen p - bitlen q + 1) * of_int q"
      using Q1 pow2_pos by simp
    finally show ?thesis using qr by (simp add: x pos_divide_less_eq)
  qed
  show ?thesis using lower upper by simp
qed

lemma floor_log2_bounds:
  assumes "0 < x"
  shows "pow2 (floor_log2 x) \<le> x \<and> x < pow2 (floor_log2 x + 1)"
proof -
  obtain p q where q: "quotient_of x = (p, q)" by (cases "quotient_of x")
  note enc = floor_log2_enclosure [OF assms q]
  show ?thesis
  proof (cases "pow2 (bitlen p - bitlen q) \<le> x")
    case True
    then have "floor_log2 x = bitlen p - bitlen q" by (simp add: floor_log2_def q)
    then show ?thesis using True enc by simp
  next
    case False
    then have "floor_log2 x = bitlen p - bitlen q - 1" by (simp add: floor_log2_def q)
    then show ?thesis using False enc by simp
  qed
qed

lemma floor_log2_unique:
  assumes "pow2 e \<le> x" and "x < pow2 (e + 1)"
  shows "floor_log2 x = e"
proof -
  have pos: "0 < x" using assms(1) pow2_pos [of e] by simp
  note b = floor_log2_bounds [OF pos]
  have "pow2 e < pow2 (floor_log2 x + 1)" using assms(1) b by simp
  then have "e < floor_log2 x + 1" by (simp add: pow2_less_iff)
  moreover have "pow2 (floor_log2 x) < pow2 (e + 1)" using assms(2) b by simp
  then have "floor_log2 x < e + 1" by (simp add: pow2_less_iff)
  ultimately show ?thesis by simp
qed

lemma round_ties_even_nearest:
  assumes "\<bar>r - of_int m\<bar> < 1 / 2"
  shows "round_ties_even r = m"
proof -
  have "\<lfloor>r\<rfloor> = m \<or> \<lfloor>r\<rfloor> = m - 1"
    using assms by (auto simp: floor_eq_iff abs_less_iff)
  then show ?thesis
  proof
    assume f: "\<lfloor>r\<rfloor> = m"
    then have "0 \<le> r - of_int m" using of_int_floor_le [of r] by simp
    then show ?thesis using assms f by (simp add: round_ties_even_def Let_def)
  next
    assume f: "\<lfloor>r\<rfloor> = m - 1"
    have "r < of_int m" using f floor_less_iff [of r m] by simp
    then show ?thesis using assms f by (simp add: round_ties_even_def Let_def)
  qed
qed


lemma round_double_positive:
  assumes "pow2 e \<le> x" and "x < pow2 (e + 1)" and "- 1022 \<le> e"
      and "round_ties_even (x / pow2 (e - 52)) = m"
      and "of_int m * pow2 (e - 52) < pow2 1024"
  shows "round_double x = Finite (of_int m * pow2 (e - 52))"
proof -
  have pos: "0 < x" using assms(1) pow2_pos [of e] by simp
  have "floor_log2 x = e" using floor_log2_unique [OF assms(1,2)] .
  then show ?thesis using pos assms(3,4,5)
    by (simp add: round_double_def Let_def max_def)
qed

lemma exact_double_positive:
  assumes "pow2 e \<le> x" and "x < pow2 (e + 1)" and "- 1022 \<le> e"
      and "x = of_int m * pow2 (e - 52)" and "x < pow2 1024"
  shows "exact_double x"
proof -
  have "x / pow2 (e - 52) = of_int m"
    using assms(4) pow2_pos [of "e - 52"] by simp
  then have "round_ties_even (x / pow2 (e - 52)) = m"
    using round_ties_even_nearest [of "of_int m" m] by simp
  then show ?thesis
    using round_double_positive [OF assms(1,2,3), of m] assms(4,5)
    by (simp add: exact_double_def)
qed

text \<open>The roundings that the sample stores below go through.\<close>

lemma exact_double_4: "exact_double 4"
  by (rule exact_double_positive [of 2 _ 4503599627370496]) (simp_all add: pow2_def)

lemma exact_double_9: "exact_double 9"
  by (rule exact_double_positive [of 3 _ 5066549580791808]) (simp_all add: pow2_def)

lemma exact_double_9_2: "exact_double (9 / 2)"
  by (rule exact_double_positive [of 2 _ 5066549580791808]) (simp_all add: pow2_def)


lemma exact_double_15_4: "exact_double (15 / 4)"
  by (rule exact_double_positive [of 1 _ 8444249301319680]) (simp_all add: pow2_def)




lemma round_double_29_7: "round_double (29 / 7) = Finite (4664442471205157 / 1125899906842624)"
proof -
  have "round_ties_even (29 / 7 / pow2 (2 - 52)) = 4664442471205157"
    by (rule round_ties_even_nearest) (simp add: pow2_def)
  then show ?thesis
    using round_double_positive [of 2 "29 / 7" 4664442471205157]
    by (simp add: pow2_def)
qed

lemma round_double_old_times_7:
  "round_double (4664442471205157 / 1125899906842624 * 7) = Finite (8162774324609025 / 281474976710656)"
proof -
  have "round_ties_even (4664442471205157 / 1125899906842624 * 7 / pow2 (4 - 52)) = 8162774324609025"
    by (rule round_ties_even_nearest) (simp add: pow2_def)
  then show ?thesis
    using round_double_positive [of 4 "4664442471205157 / 1125899906842624 * 7" 8162774324609025]
    by (simp add: pow2_def)
qed

lemma exact_double_total_8: "exact_double (8162774324609025 / 281474976710656 + 1)"
  by (rule exact_double_positive [of 4 _ 8444249301319681]) (simp_all add: pow2_def)

lemma exact_double_average_8: "exact_double ((8162774324609025 / 281474976710656 + 1) / 8)"
  by (rule exact_double_positive [of 1 _ 8444249301319681]) (simp_all add: pow2_def)

section \<open>Properties of the rating aggregation\<close>

lemma rateWriter_rated:
  assumes "find (\<lambda>r. wr_orderId r = rr_orderId req) (writerRatings d) \<noteq> None"
  shows "rateWriter req d = Inr (RatedObject, d)"
  using assms by (simp add: rateWriter_def)

lemma rateWriter_fresh:
  assumes "find (\<lambda>r. wr_orderId r = rr_orderId req) (writerRatings d) = None"
      and "find (\<lambda>a. wo_orderId a = rr_orderId req) (writerOrders d) = Some a"
  shows "rateWriter req d =
           Inr (RatingBool True,
                d\<lparr>writerRatings := writerRatings d @
                     [\<lparr>wr_orderId = rr_orderId req, wr_writerId = wo_writerId a, wr_rating = rr_rating req\<rparr>],
                  writerAverageRatings :=
                    (case find (\<lambda>x. war_writerId x = wo_writerId a) (writerAverageRatings d) of
                       None \<Rightarrow> writerAverageRatings d @
                                 [\<lparr>war_writerId = wo_writerId a, war_rating = rr_rating req\<rparr>]
                     | Some avg \<Rightarrow>
                         map (\<lambda>x. if war_writerId x = wo_writerId a
                                   then x\<lparr>war_rating :=
                                          js_div_length
                                            (js_add
                                               (js_mul (war_rating avg)
                                                  (Finite (of_int (int (Suc (length
                                                     (filter (\<lambda>r. wr_writerId r = wo_writerId a)
                                                        (writerRatings d)))) - 1))))
                                               (rr_rating req))
                                            (Suc (length (filter (\<lambda>r. wr_writerId r = wo_writerId a)
                                                            (writerRatings d))))\<rparr>
                                   else x)
                           (writerAverageRatings d))\<rparr>)"
proof -
  have nr: "find (\<lambda>r. wr_orderId r = rr_orderId req \<and> wr_writerId r = wo_writerId a) (writerRatings d) = None"
    using assms(1) by (auto simp: find_None_iff)
  show ?thesis
    using assms nr
    by (simp add: rateWriter_def Let_def js_truthy_object_def js_truthy_array_def split: option.splits)
qed

lemma rateWriter_Inr_rated:
  assumes "rateWriter req d = Inr (res, d1)"
  shows "find (\<lambda>r. wr_orderId r = rr_orderId req) (writerRatings d1) \<noteq> None"
proof (cases "find (\<lambda>r. wr_orderId r = rr_orderId req) (writerRatings d) = None")
  case False
  then show ?thesis using assms by (simp add: rateWriter_def)
next
  case True
  then obtain a where a: "find (\<lambda>a. wo_orderId a = rr_orderId req) (writerOrders d) = Some a"
    using assms by (cases "find (\<lambda>a. wo_orderId a = rr_orderId req) (writerOrders d)") (auto simp: rateWriter_def)
  have "writerRatings d1 = writerRatings d @
                     [\<lparr>wr_orderId = rr_orderId req, wr_writerId = wo_writerId a, wr_rating = rr_rating req\<rparr>]"
    using rateWriter_fresh [OF True a] assms by auto
  then show ?thesis by (auto simp: find_None_iff)
qed

text \<open>The three runs of \<open>rateWriter\<close> on the sample stores.\<close>

lemma rateWriter_db_example:
  "rateWriter \<lparr>rr_orderId = 4, rr_rating = Finite 5\<rparr> db_example = Inr (RatingBool True, db_example_rated)"
proof -
  have "js_div_length (js_add (js_mul (Finite 4) (Finite 1)) (Finite 5)) (Suc (Suc 0)) = Finite (9 / 2)"
    using exact_double_4 exact_double_9 exact_double_9_2
    by (simp add: js_mul_def js_add_def js_div_length_def exact_double_def)
  then show ?thesis
    using rateWriter_fresh [of "\<lparr>rr_orderId = 4, rr_rating = Finite 5\<rparr>" db_example
        "\<lparr>wo_orderId = 4, wo_writerId = 7\<rparr>"]
    by (simp add: db_example_def db_example_rated_def)
qed


lemma rateWriter_db_seven_ratings:
  "rateWriter \<lparr>rr_orderId = 8, rr_rating = Finite 1\<rparr> db_seven_ratings =
     Inr (RatingBool True, db_eight_ratings)"
proof -
  have "js_div_length
          (js_add (js_mul (Finite (4664442471205157 / 1125899906842624)) (Finite 7)) (Finite 1))
          (Suc (Suc (Suc (Suc (Suc (Suc (Suc (Suc 0))))))))
        = Finite (8444249301319681 / 2251799813685248)"
    using round_double_old_times_7 exact_double_total_8 exact_double_average_8
    by (simp add: js_mul_def js_add_def js_div_length_def exact_double_def)
  then show ?thesis
    using rateWriter_fresh [of "\<lparr>rr_orderId = 8, rr_rating = Finite 1\<rparr>"
        db_seven_ratings "\<lparr>wo_orderId = 8, wo_writerId = 7\<rparr>"]
    by (simp add: db_seven_ratings_def db_eight_ratings_def db_example_def)
qed

text \<open>
  Claim C5: when a rating row exists for the order, \<open>rateWriter\<close> answers \<open>{rated: true}\<close>
  and leaves the store as it is; hence after any call that returned, a second call for the
  same order answers \<open>{rated: true}\<close> and changes nothing, the average row included.
\<close>

theorem rateWriter_at_most_once:
  "((\<exists>r\<in>set (writerRatings d). wr_orderId r = rr_orderId req) \<longrightarrow>
      rateWriter req d = Inr (RatedObject, d)) \<and>
   (rateWriter req d = Inr (res, d1) \<and> rr_orderId req2 = rr_orderId req \<longrightarrow>
      rateWriter req2 d1 = Inr (RatedObject, d1))"
proof (intro conjI impI)
  assume "\<exists>r\<in>set (writerRatings d). wr_orderId r = rr_orderId req"
  then have "find (\<lambda>r. wr_orderId r = rr_orderId req) (writerRatings d) \<noteq> None"
    by (auto simp: find_None_iff)
  then show "rateWriter req d = Inr (RatedObject, d)" by (rule rateWriter_rated)
next
  assume h: "rateWriter req d = Inr (res, d1) \<and> rr_orderId req2 = rr_orderId req"
  then have "find (\<lambda>r. wr_orderId r = rr_orderId req2) (writerRatings d1) \<noteq> None"
    using rateWriter_Inr_rated [of req d res d1] by simp
  then show "rateWriter req2 d1 = Inr (RatedObject, d1)" by (rule rateWriter_rated)
qed

theorem rateWriter_at_most_once_witness:
  "rateWriter \<lparr>rr_orderId = 4, rr_rating = Finite 5\<rparr> db_example = Inr (RatingBool True, db_example_rated) \<and>
   averagesOf 7 db_example = [Finite 4] \<and>
   averagesOf 7 db_example_rated = [Finite (9 / 2)] \<and>
   rateWriter \<lparr>rr_orderId = 4, rr_rating = Finite 1\<rparr> db_example_rated = Inr (RatedObject, db_example_rated)"
proof -
  have avgs: "averagesOf 7 db_example = [Finite 4]" "averagesOf 7 db_example_rated = [Finite (9 / 2)]"
    by (simp_all add: averagesOf_def db_example_def db_example_rated_def)
  show ?thesis
    using rateWriter_db_example avgs
      rateWriter_at_most_once [of db_example "\<lparr>rr_orderId = 4, rr_rating = Finite 5\<rparr>" "RatingBool True"
        db_example_rated "\<lparr>rr_orderId = 4, rr_rating = Finite 1\<rparr>"]
    by simp
qed




text \<open>
  The same with ordinary ratings: after 5, 5, 5, 5, 5, 3 and 1 the stored average is the
  double nearest to 29/7; a rating of 1 then stores 3.7500000000000004, where the mean of
  the eight ratings is the double 3.75.
\<close>

lemma rateWriter_rounding_ordinary_ratings:
  "ratingsOf 7 db_seven_ratings =
     [Finite 5, Finite 5, Finite 5, Finite 5, Finite 5, Finite 3, Finite 1] \<and>
   averagesOf 7 db_seven_ratings = [round_double (arithmetic_mean [5, 5, 5, 5, 5, 3, 1])] \<and>
   rateWriter \<lparr>rr_orderId = 8, rr_rating = Finite 1\<rparr> db_seven_ratings =
     Inr (RatingBool True, db_eight_ratings) \<and>
   averagesOf 7 db_eight_ratings = [Finite (15 / 4 + 1 / 2251799813685248)] \<and>
   arithmetic_mean [5, 5, 5, 5, 5, 3, 1, 1] = 15 / 4 \<and>
   exact_double (15 / 4)"
  using rateWriter_db_seven_ratings exact_double_15_4 round_double_29_7
  by (simp add: ratingsOf_def averagesOf_def arithmetic_mean_def
        db_seven_ratings_def db_eight_ratings_def db_example_def)



section \<open>Properties of the status and assignment workflow\<close>

lemma successfullyPaid_find:
  assumes "find (\<lambda>s. pst_status s = ''Success'') (paymentStatuses d) = Some ps"
  shows "(find (\<lambda>p. cp_orderId p = oid \<and> cp_statusId p = pst_id ps) (clientPayments d) = None)
           = (\<not> successfullyPaid oid d)"
  using assms by (auto simp: successfullyPaid_def find_None_iff)

lemma updateOrderStatus_run:
  assumes ps: "find (\<lambda>s. pst_status s = ''Success'') (paymentStatuses d) = Some ps"
      and st: "find (\<lambda>s. os_status s = targetStatus req d) (orderStatuses d) = Some st"
      and w: "find (\<lambda>w. w_userId w = sr_writerId req) (writers d) = Some w"
  shows "updateOrderStatus req d =
           Inr (\<lparr>statusUpdated = True,
                 writerAlreadyChosen = (assignmentsOf (sr_orderId req) (w_id w) d \<noteq> []),
                 message = None\<rparr>,
                d\<lparr>orders := map (\<lambda>x. if o_id x = sr_orderId req then x\<lparr>o_statusId := os_id st\<rparr> else x)
                               (orders d),
                  orderBids := (if sr_type req = ''public''
                                then map (\<lambda>b. if b_orderId b = sr_orderId req \<and> b_writerId b = w_id w
                                               then b\<lparr>b_successful := True\<rparr> else b) (orderBids d)
                                else orderBids d),
                  writerOrders := (if assignmentsOf (sr_orderId req) (w_id w) d \<noteq> [] then writerOrders d
                                   else writerOrders d @
                                          [\<lparr>wo_orderId = sr_orderId req, wo_writerId = w_id w\<rparr>])\<rparr>)"
proof -
  have paid: "(find (\<lambda>p. cp_orderId p = sr_orderId req \<and> cp_statusId p = pst_id ps) (clientPayments d) = None)
           = (\<not> successfullyPaid (sr_orderId req) d)"
    by (rule successfullyPaid_find [OF ps])
  have chosen: "(find (\<lambda>a. wo_orderId a = sr_orderId req \<and> wo_writerId a = w_id w) (writerOrders d) = None)
           = (assignmentsOf (sr_orderId req) (w_id w) d = [])"
    by (simp add: assignmentsOf_def find_filter split: list.splits)
  show ?thesis
  proof (cases "successfullyPaid (sr_orderId req) d \<or> sr_type req = ''private''")
    case True
    then have "find (\<lambda>s. os_status s = ''Ongoing'') (orderStatuses d) = Some st"
      using st by (simp add: targetStatus_def)
    then show ?thesis using True ps w paid chosen
      by (auto simp: updateOrderStatus_def Let_def js_truthy_array_def js_truthy_object_def)
  next
    case False
    then have "find (\<lambda>s. os_status s = ''Pending payment'') (orderStatuses d) = Some st"
      using st by (simp add: targetStatus_def)
    then show ?thesis using False ps w paid chosen
      by (auto simp: updateOrderStatus_def Let_def js_truthy_array_def js_truthy_object_def)
  qed
qed

lemma updateOrderStatus_Inr_lookups:
  assumes "updateOrderStatus req d = Inr (res, d')"
  shows "\<exists>ps st w. find (\<lambda>s. pst_status s = ''Success'') (paymentStatuses d) = Some ps \<and>
           find (\<lambda>s. os_status s = targetStatus req d) (orderStatuses d) = Some st \<and>
           find (\<lambda>w. w_userId w = sr_writerId req) (writers d) = Some w"
proof -
  obtain ps where ps: "find (\<lambda>s. pst_status s = ''Success'') (paymentStatuses d) = Some ps"
    using assms by (cases "find (\<lambda>s. pst_status s = ''Success'') (paymentStatuses d)")
      (auto simp: updateOrderStatus_def)
  have paid: "(find (\<lambda>p. cp_orderId p = sr_orderId req \<and> cp_statusId p = pst_id ps) (clientPayments d) = None)
           = (\<not> successfullyPaid (sr_orderId req) d)"
    by (rule successfullyPaid_find [OF ps])
  have run: "updateOrderStatus req d =
     (case find (\<lambda>s. os_status s = targetStatus req d) (orderStatuses d) of
        None \<Rightarrow> Inl TypeError
      | Some st \<Rightarrow>
          (case find (\<lambda>w. w_userId w = sr_writerId req) (writers d) of
             None \<Rightarrow> Inl TypeError
           | Some w \<Rightarrow> updateOrderStatus req d))"
  proof (cases "successfullyPaid (sr_orderId req) d \<or> sr_type req = ''private''")
    case True
    then show ?thesis using ps paid
      by (auto simp: updateOrderStatus_def Let_def targetStatus_def js_truthy_array_def
               split: option.splits)
  next
    case False
    then show ?thesis using ps paid
      by (auto simp: updateOrderStatus_def Let_def targetStatus_def js_truthy_array_def
               split: option.splits)
  qed
  obtain st where st: "find (\<lambda>s. os_status s = targetStatus req d) (orderStatuses d) = Some st"
    using assms run by (cases "find (\<lambda>s. os_status s = targetStatus req d) (orderStatuses d)") auto
  obtain w where w: "find (\<lambda>w. w_userId w = sr_writerId req) (writers d) = Some w"
    using assms run st by (cases "find (\<lambda>w. w_userId w = sr_writerId req) (writers d)") auto
  show ?thesis using ps st w by blast
qed

text \<open>
  Claim C7: a call of \<open>updateOrderStatus\<close> that returns has given every order row with the
  requested id the id of a status row named \<open>Ongoing\<close> when the order has a successful
  payment or the request is private, and of one named \<open>Pending payment\<close> otherwise; it
  returns exactly when the \<open>Success\<close> payment status, that order status and the writer of
  the request exist (it throws otherwise).
\<close>

theorem updateOrderStatus_sets_status:
  "(updateOrderStatus req d = Inr (res, d') \<longrightarrow>
      (\<exists>s\<in>set (orderStatuses d). os_status s = targetStatus req d \<and>
         orders d' = map (\<lambda>x. if o_id x = sr_orderId req then x\<lparr>o_statusId := os_id s\<rparr> else x) (orders d)) \<and>
      orderStatuses d' = orderStatuses d) \<and>
   ((\<exists>res d'. updateOrderStatus req d = Inr (res, d')) \<longleftrightarrow>
      (\<exists>s\<in>set (paymentStatuses d). pst_status s = ''Success'') \<and>
      (\<exists>s\<in>set (orderStatuses d). os_status s = targetStatus req d) \<and>
      (\<exists>w\<in>set (writers d). w_userId w = sr_writerId req))"
proof (rule conjI)
  show "updateOrderStatus req d = Inr (res, d') \<longrightarrow>
      (\<exists>s\<in>set (orderStatuses d). os_status s = targetStatus req d \<and>
         orders d' = map (\<lambda>x. if o_id x = sr_orderId req then x\<lparr>o_statusId := os_id s\<rparr> else x) (orders d)) \<and>
      orderStatuses d' = orderStatuses d"
  proof (rule impI)
    assume run: "updateOrderStatus req d = Inr (res, d')"
    then obtain ps st w where
      l: "find (\<lambda>s. pst_status s = ''Success'') (paymentStatuses d) = Some ps"
         "find (\<lambda>s. os_status s = targetStatus req d) (orderStatuses d) = Some st"
         "find (\<lambda>w. w_userId w = sr_writerId req) (writers d) = Some w"
      using updateOrderStatus_Inr_lookups by blast
    have st: "st \<in> set (orderStatuses d)" "os_status st = targetStatus req d"
      using find_Some_set [OF l(2)] by simp_all
    have ord: "orders d' = map (\<lambda>x. if o_id x = sr_orderId req then x\<lparr>o_statusId := os_id st\<rparr> else x) (orders d)"
      using run updateOrderStatus_run [OF l] by auto
    have "orderStatuses d' = orderStatuses d"
      using run updateOrderStatus_run [OF l] by auto
    then show "(\<exists>s\<in>set (orderStatuses d). os_status s = targetStatus req d \<and>
         orders d' = map (\<lambda>x. if o_id x = sr_orderId req then x\<lparr>o_statusId := os_id s\<rparr> else x) (orders d)) \<and>
      orderStatuses d' = orderStatuses d"
      using st ord by blast
  qed
next
  show "(\<exists>res d'. updateOrderStatus req d = Inr (res, d')) \<longleftrightarrow>
      (\<exists>s\<in>set (paymentStatuses d). pst_status s = ''Success'') \<and>
      (\<exists>s\<in>set (orderStatuses d). os_status s = targetStatus req d) \<and>
      (\<exists>w\<in>set (writers d). w_userId w = sr_writerId req)"
  proof (rule iffI)
    assume "\<exists>res d'. updateOrderStatus req d = Inr (res, d')"
    then obtain ps st w where
      l: "find (\<lambda>s. pst_status s = ''Success'') (paymentStatuses d) = Some ps"
         "find (\<lambda>s. os_status s = targetStatus req d) (orderStatuses d) = Some st"
         "find (\<lambda>w. w_userId w = sr_writerId req) (writers d) = Some w"
      using updateOrderStatus_Inr_lookups by blast
    show "(\<exists>s\<in>set (paymentStatuses d). pst_status s = ''Success'') \<and>
        (\<exists>s\<in>set (orderStatuses d). os_status s = targetStatus req d) \<and>
        (\<exists>w\<in>set (writers d). w_userId w = sr_writerId req)"
      using find_Some_set [OF l(1)] find_Some_set [OF l(2)] find_Some_set [OF l(3)] by blast
  next
    assume "(\<exists>s\<in>set (paymentStatuses d). pst_status s = ''Success'') \<and>
        (\<exists>s\<in>set (orderStatuses d). os_status s = targetStatus req d) \<and>
        (\<exists>w\<in>set (writers d). w_userId w = sr_writerId req)"
    then obtain ps st w where
      l: "find (\<lambda>s. pst_status s = ''Success'') (paymentStatuses d) = Some ps"
         "find (\<lambda>s. os_status s = targetStatus req d) (orderStatuses d) = Some st"
         "find (\<lambda>w. w_userId w = sr_writerId req) (writers d) = Some w"
      using find_Some_ex [of "\<lambda>s. pst_status s = ''Success''" "paymentStatuses d"]
            find_Some_ex [of "\<lambda>s. os_status s = targetStatus req d" "orderStatuses d"]
            find_Some_ex [of "\<lambda>w. w_userId w = sr_writerId req" "writers d"] by auto
    show "\<exists>res d'. updateOrderStatus req d = Inr (res, d')"
      using updateOrderStatus_run [OF l] by blast
  qed
qed

theorem updateOrderStatus_sets_status_witness:
  "updateOrderStatus \<lparr>sr_orderId = 5, sr_writerId = 3, sr_type = ''public''\<rparr> db_example =
     Inr (\<lparr>statusUpdated = True, writerAlreadyChosen = False, message = None\<rparr>, db_example_assigned) \<and>
   targetStatus \<lparr>sr_orderId = 5, sr_writerId = 3, sr_type = ''public''\<rparr> db_example = ''Pending payment'' \<and>
   (\<exists>s\<in>set (orderStatuses db_example). os_status s = ''Pending payment'' \<and>
      orders db_example_assigned =
        map (\<lambda>x. if o_id x = 5 then x\<lparr>o_statusId := os_id s\<rparr> else x) (orders db_example))"
proof -
  have run: "updateOrderStatus \<lparr>sr_orderId = 5, sr_writerId = 3, sr_type = ''public''\<rparr> db_example =
     Inr (\<lparr>statusUpdated = True, writerAlreadyChosen = False, message = None\<rparr>, db_example_assigned)"
    by code_simp
  have tgt: "targetStatus \<lparr>sr_orderId = 5, sr_writerId = 3, sr_type = ''public''\<rparr> db_example = ''Pending payment''"
    by (simp add: targetStatus_def successfullyPaid_def db_example_def)
  show ?thesis
    using run tgt
      updateOrderStatus_sets_status [of "\<lparr>sr_orderId = 5, sr_writerId = 3, sr_type = ''public''\<rparr>"
        db_example "\<lparr>statusUpdated = True, writerAlreadyChosen = False, message = None\<rparr>"
        db_example_assigned]
    by simp
qed

text \<open>
  Claim C8: the insert of a \<open>WriterOrder\<close> row follows a check for the (order, writer)
  pair: the first call reports \<open>writerAlreadyChosen\<close> exactly when the pair has a row already,
  and appends one row only when it has none. When a call returned, the same call again
  returns \<open>{statusUpdated: true, writerAlreadyChosen: true}\<close> and leaves the \<open>WriterOrder\<close>
  table alone, so a pair without a row has exactly one after both calls.
\<close>

theorem updateOrderStatus_assigns_once:
  assumes "updateOrderStatus req d = Inr (res1, d1)"
  shows "\<exists>w d2. find (\<lambda>w. w_userId w = sr_writerId req) (writers d) = Some w \<and>
           writerAlreadyChosen res1 = (assignmentsOf (sr_orderId req) (w_id w) d \<noteq> []) \<and>
           writerOrders d1 = (if writerAlreadyChosen res1 then writerOrders d
                              else writerOrders d @ [\<lparr>wo_orderId = sr_orderId req, wo_writerId = w_id w\<rparr>]) \<and>
           updateOrderStatus req d1 =
             Inr (\<lparr>statusUpdated = True, writerAlreadyChosen = True, message = None\<rparr>, d2) \<and>
           writerOrders d2 = writerOrders d1 \<and>
           length (assignmentsOf (sr_orderId req) (w_id w) d2) =
             max 1 (length (assignmentsOf (sr_orderId req) (w_id w) d))"
proof -
  obtain ps st w where
    l: "find (\<lambda>s. pst_status s = ''Success'') (paymentStatuses d) = Some ps"
       "find (\<lambda>s. os_status s = targetStatus req d) (orderStatuses d) = Some st"
       "find (\<lambda>w. w_userId w = sr_writerId req) (writers d) = Some w"
    using updateOrderStatus_Inr_lookups [OF assms] by blast
  let ?A = "assignmentsOf (sr_orderId req) (w_id w)"
  note first = updateOrderStatus_run [OF l]
  have res1: "writerAlreadyChosen res1 = (?A d \<noteq> [])"
    using assms first by auto
  have wo1: "writerOrders d1 = (if ?A d \<noteq> [] then writerOrders d
                else writerOrders d @ [\<lparr>wo_orderId = sr_orderId req, wo_writerId = w_id w\<rparr>])"
    using assms first by auto
  have same: "paymentStatuses d1 = paymentStatuses d" "orderStatuses d1 = orderStatuses d"
    "writers d1 = writers d" "clientPayments d1 = clientPayments d"
    using assms first by auto
  have tgt: "targetStatus req d1 = targetStatus req d"
    using same by (simp add: targetStatus_def successfullyPaid_def)
  have l1: "find (\<lambda>s. pst_status s = ''Success'') (paymentStatuses d1) = Some ps"
       "find (\<lambda>s. os_status s = targetStatus req d1) (orderStatuses d1) = Some st"
       "find (\<lambda>w. w_userId w = sr_writerId req) (writers d1) = Some w"
    using l same tgt by simp_all
  have chosen1: "?A d1 \<noteq> []"
    using wo1 by (auto simp: assignmentsOf_def)
  have len1: "length (?A d1) = max 1 (length (?A d))"
    using wo1 by (cases "?A d") (auto simp: assignmentsOf_def)
  note second = updateOrderStatus_run [OF l1]
  let ?d2 = "d1\<lparr>orders := map (\<lambda>x. if o_id x = sr_orderId req then x\<lparr>o_statusId := os_id st\<rparr> else x)
                               (orders d1),
                  orderBids := (if sr_type req = ''public''
                                then map (\<lambda>b. if b_orderId b = sr_orderId req \<and> b_writerId b = w_id w
                                               then b\<lparr>b_successful := True\<rparr> else b) (orderBids d1)
                                else orderBids d1)\<rparr>"
  have run2: "updateOrderStatus req d1 =
      Inr (\<lparr>statusUpdated = True, writerAlreadyChosen = True, message = None\<rparr>, ?d2)"
    using second chosen1 by simp
  have "writerOrders ?d2 = writerOrders d1" by simp
  moreover have "length (?A ?d2) = max 1 (length (?A d))"
    using len1 by (simp add: assignmentsOf_def)
  moreover have "writerOrders d1 = (if writerAlreadyChosen res1 then writerOrders d
                else writerOrders d @ [\<lparr>wo_orderId = sr_orderId req, wo_writerId = w_id w\<rparr>])"
    using wo1 res1 by simp
  ultimately show ?thesis
    using l(3) res1 run2
    by (intro exI [of _ w] exI [of _ ?d2] conjI) assumption+
qed

theorem updateOrderStatus_assigns_once_witness:
  "updateOrderStatus \<lparr>sr_orderId = 5, sr_writerId = 3, sr_type = ''public''\<rparr> db_example =
     Inr (\<lparr>statusUpdated = True, writerAlreadyChosen = False, message = None\<rparr>, db_example_assigned) \<and>
   updateOrderStatus \<lparr>sr_orderId = 5, sr_writerId = 3, sr_type = ''public''\<rparr> db_example_assigned =
     Inr (\<lparr>statusUpdated = True, writerAlreadyChosen = True, message = None\<rparr>, db_example_assigned) \<and>
   assignmentsOf 5 7 db_example = [] \<and>
   assignmentsOf 5 7 db_example_assigned = [\<lparr>wo_orderId = 5, wo_writerId = 7\<rparr>]"
proof -
  have run: "updateOrderStatus \<lparr>sr_orderId = 5, sr_writerId = 3, sr_type = ''public''\<rparr> db_example =
     Inr (\<lparr>statusUpdated = True, writerAlreadyChosen = False, message = None\<rparr>, db_example_assigned)"
    by code_simp
  have again: "updateOrderStatus \<lparr>sr_orderId = 5, sr_writerId = 3, sr_type = ''public''\<rparr> db_example_assigned =
     Inr (\<lparr>statusUpdated = True, writerAlreadyChosen = True, message = None\<rparr>, db_example_assigned)"
    by code_simp
  have rows: "assignmentsOf 5 7 db_example = []"
    "assignmentsOf 5 7 db_example_assigned = [\<lparr>wo_orderId = 5, wo_writerId = 7\<rparr>]"
    by (simp_all add: assignmentsOf_def db_example_assigned_def db_example_def)
  show ?thesis
    using run again rows updateOrderStatus_assigns_once [OF run]
    by simp
qed

section \<open>Properties of the revision workflow\<close>

text \<open>
  Claim C9: when the client resolved from the request's email owns no order with the
  requested id, \<open>revisionRequest\<close> answers \<open>{success: false, message: 'Order does not exist'}\<close>
  and the store it leaves is the store it found: no file row, no status change, no
  revision row.
\<close>

theorem revisionRequest_not_owner:
  assumes "getClientId (rq_email req) d = Inr CLIENT_ID"
      and "\<forall>x\<in>set (orders d). \<not> (o_id x = rq_orderId req \<and> o_clientId x = CLIENT_ID)"
  shows "revisionRequest req d = Inr (RevisionFailure ''Order does not exist'', d)"
proof -
  have "find (\<lambda>x. o_id x = rq_orderId req \<and> o_clientId x = CLIENT_ID) (orders d) = None"
    using assms(2) by (simp add: find_None_iff)
  then show ?thesis using assms(1) by (simp add: revisionRequest_def)
qed

theorem revisionRequest_not_owner_witness:
  "getClientId ''Bob@example.org'' db_example = Inr 11 \<and>
   find (\<lambda>x. o_id x = 5 \<and> o_clientId x = 11) (orders db_example) = None \<and>
   revisionRequest
     \<lparr>rq_email = ''Bob@example.org'', rq_orderId = 5, rq_checklist = [(''grammar'', True, ''fix it'')],
      rq_supportingFiles = [\<lparr>sf_fileUrl = ''u/1'', sf_originalName = ''notes.txt''\<rparr>],
      rq_deadline_date = ''2021-03-01'', rq_deadline_time = ''10:30''\<rparr> db_example =
     Inr (RevisionFailure ''Order does not exist'', db_example)"
proof -
  have cid: "getClientId ''Bob@example.org'' db_example = Inr 11"
    by code_simp
  have none: "\<forall>x\<in>set (orders db_example). \<not> (o_id x = 5 \<and> o_clientId x = 11)"
    by (simp add: db_example_def)
  have none': "find (\<lambda>x. o_id x = 5 \<and> o_clientId x = 11) (orders db_example) = None"
    using none by (simp add: find_None_iff)
  show ?thesis
    using cid none'
      revisionRequest_not_owner [of
        "\<lparr>rq_email = ''Bob@example.org'', rq_orderId = 5, rq_checklist = [(''grammar'', True, ''fix it'')],
          rq_supportingFiles = [\<lparr>sf_fileUrl = ''u/1'', sf_originalName = ''notes.txt''\<rparr>],
          rq_deadline_date = ''2021-03-01'', rq_deadline_time = ''10:30''\<rparr>" db_example 11]
      none
    by simp
qed

end
